theory Spec2Isabelle
  imports Complex_Main
begin

section \<open>GPS tracker of the SmartTourist front end\<close>

text \<open>
  A shallow embedding of \<^verbatim>\<open>gps-tracker.js\<close> (class \<^verbatim>\<open>GPSTracker\<close>) and of the
  \<^verbatim>\<open>api\<close> object of \<^verbatim>\<open>api.js\<close>.

  JavaScript numbers are modelled as real numbers: \<^verbatim>\<open>Math.sin\<close>, \<^verbatim>\<open>Math.cos\<close> and
  \<^verbatim>\<open>Math.sqrt\<close> are \<^term>\<open>sin\<close>, \<^term>\<open>cos\<close> and \<^term>\<open>sqrt\<close> on \<^typ>\<open>real\<close>, and
  \<^verbatim>\<open>Math.PI\<close> is \<^term>\<open>pi\<close>. This is exact arithmetic: the rounding of IEEE-754
  doubles, NaN and the infinities are not in it. In exact arithmetic the number under
  the square roots of \<^verbatim>\<open>calculateDistance\<close> never leaves the interval from 0 to 1
  (lemma \<open>haversine_a_range\<close> below); in doubles it can round to a number just above 1
  for two points that are nearly antipodal, and then \<^verbatim>\<open>Math.sqrt(1 - a)\<close>, the distance
  and the comparison with the threshold are NaN, NaN and false. The facts about the
  distance below are therefore facts about the formula, and they are used for the
  program only where no such rounding is at stake.
\<close>

subsection \<open>Data model\<close>

text \<open>A \<^verbatim>\<open>GeolocationCoordinates\<close> object; the optional readings are \<^verbatim>\<open>null\<close> when absent.\<close>

record coords =
  latitude :: real
  longitude :: real
  accuracy :: real
  altitude :: "real option"
  altitudeAccuracy :: "real option"
  heading :: "real option"
  speed :: "real option"

text \<open>A \<^verbatim>\<open>GeolocationPosition\<close>.\<close>

record position =
  coords :: coords
  timestamp :: nat

text \<open>
  The \<^verbatim>\<open>locationData\<close> literal of \<^verbatim>\<open>savePositionToBackend\<close>: the seven fields of the
  coordinates and the position's time stamp (\<open>sent_timestamp\<close> is its key \<^verbatim>\<open>timestamp\<close>).
\<close>

record locationData = coords +
  sent_timestamp :: nat

text \<open>The \<^verbatim>\<open>options\<close> object of the tracker.\<close>

record options =
  enableHighAccuracy :: bool
  timeout :: nat
  maximumAge :: nat
  updateInterval :: nat
  minDistance :: real
  autoStart :: bool

text \<open>
  The argument of the constructor: any of the keys may be missing, and
  \<^verbatim>\<open>...options\<close> overrides the defaults with the keys that are present.
\<close>

record options_arg =
  arg_enableHighAccuracy :: "bool option"
  arg_timeout :: "nat option"
  arg_maximumAge :: "nat option"
  arg_updateInterval :: "nat option"
  arg_minDistance :: "real option"
  arg_autoStart :: "bool option"

datatype permission = granted | denied | prompt

text \<open>
  The fields of a \<^verbatim>\<open>GPSTracker\<close>. \<^verbatim>\<open>null\<close> and \<^verbatim>\<open>undefined\<close> are \<^term>\<open>None\<close>:
  \<^verbatim>\<open>permissionState\<close> and \<^verbatim>\<open>intervalId\<close> are not set by the constructor.
\<close>

record tracker =
  opts :: options
  watchId :: "nat option"
  lastPosition :: "position option"
  isTracking :: bool
  userConsent :: bool
  initialized :: bool
  permissionState :: "permission option"
  intervalId :: "nat option"

definition merge_options :: "options_arg \<Rightarrow> options" where
  "merge_options a =
     \<lparr>enableHighAccuracy = (case arg_enableHighAccuracy a of None \<Rightarrow> True | Some v \<Rightarrow> v),
      timeout = (case arg_timeout a of None \<Rightarrow> 10000 | Some v \<Rightarrow> v),
      maximumAge = (case arg_maximumAge a of None \<Rightarrow> 0 | Some v \<Rightarrow> v),
      updateInterval = (case arg_updateInterval a of None \<Rightarrow> 60000 | Some v \<Rightarrow> v),
      minDistance = (case arg_minDistance a of None \<Rightarrow> 10 | Some v \<Rightarrow> v),
      autoStart = (case arg_autoStart a of None \<Rightarrow> False | Some v \<Rightarrow> v)\<rparr>"

definition constructor :: "options_arg \<Rightarrow> tracker" where
  "constructor a =
     \<lparr>opts = merge_options a,
      watchId = None,
      lastPosition = None,
      isTracking = False,
      userConsent = False,
      initialized = False,
      permissionState = None,
      intervalId = None\<rparr>"

subsection \<open>Position filter\<close>

text \<open>
  \<^verbatim>\<open>Math.atan2(y, x)\<close>: the angle of the point \<open>(x, y)\<close> in \<open>(-\<pi>, \<pi>]\<close>, and \<open>0\<close> at
  the origin.
\<close>

definition atan2 :: "real \<Rightarrow> real \<Rightarrow> real" where
  "atan2 y x =
     (if 0 < x then arctan (y / x)
      else if x < 0 then (if 0 \<le> y then arctan (y / x) + pi else arctan (y / x) - pi)
      else if 0 < y then pi / 2
      else if y < 0 then - (pi / 2)
      else 0)"

text \<open>
  \<^verbatim>\<open>calculateDistance\<close>, the distance in metres between two points given in degrees.
\<close>

definition calculateDistance :: "real \<Rightarrow> real \<Rightarrow> real \<Rightarrow> real \<Rightarrow> real" where
  "calculateDistance lat1 lon1 lat2 lon2 =
     (let R = 6371000;
          phi1 = lat1 * pi / 180;
          phi2 = lat2 * pi / 180;
          dphi = (lat2 - lat1) * pi / 180;
          dlam = (lon2 - lon1) * pi / 180;
          a = sin (dphi / 2) * sin (dphi / 2) +
              cos phi1 * cos phi2 *
              sin (dlam / 2) * sin (dlam / 2);
          c = 2 * atan2 (sqrt a) (sqrt (1 - a))
      in R * c)"

text \<open>
  \<^verbatim>\<open>shouldSavePosition\<close> reads \<^verbatim>\<open>this.lastPosition\<close> and \<^verbatim>\<open>this.options.minDistance\<close>
  and assigns nothing; \<^verbatim>\<open>!this.lastPosition\<close> holds exactly for \<^verbatim>\<open>null\<close>.
\<close>

definition shouldSavePosition :: "tracker \<Rightarrow> position \<Rightarrow> bool" where
  "shouldSavePosition t newPosition =
     (case lastPosition t of
        None \<Rightarrow> True
      | Some lastp \<Rightarrow>
          (let oldCoords = coords lastp;
               newCoords = coords newPosition;
               distance = calculateDistance (latitude oldCoords) (longitude oldCoords)
                            (latitude newCoords) (longitude newCoords)
           in distance \<ge> minDistance (opts t)))"

text \<open>The coordinate pair of a sample.\<close>

definition latlon :: "position \<Rightarrow> real \<times> real" where
  "latlon p = (latitude (coords p), longitude (coords p))"

text \<open>The local \<^verbatim>\<open>a\<close> of \<^verbatim>\<open>calculateDistance\<close> on its own, for the proofs.\<close>

definition haversine_a :: "real \<Rightarrow> real \<Rightarrow> real \<Rightarrow> real \<Rightarrow> real" where
  "haversine_a lat1 lon1 lat2 lon2 =
     sin ((lat2 - lat1) * pi / 180 / 2) * sin ((lat2 - lat1) * pi / 180 / 2) +
     cos (lat1 * pi / 180) * cos (lat2 * pi / 180) *
     sin ((lon2 - lon1) * pi / 180 / 2) * sin ((lon2 - lon1) * pi / 180 / 2)"

subsection \<open>The page around the tracker\<close>

text \<open>
  What the tracker does to the page is recorded in a trace, in the order in which it
  happens: the lines it writes to the console (the strings of the call; numbers and
  objects passed along are left out), the calls of
  \<^verbatim>\<open>window.showMessage(message, 'warning', 5000)\<close>, the events given to
  \<^verbatim>\<open>window.dispatchEvent\<close> (the detail's \<^verbatim>\<open>timestamp\<close> is the wall clock and is left
  out) and the calls of \<^verbatim>\<open>window.api.saveLocation\<close> that were really made.
\<close>

datatype effect =
    console_log "string list"
  | console_warn "string list"
  | console_error "string list"
  | showMessage string string nat
  | dispatchEvent string position
  | saveLocation_call locationData

text \<open>
  A call of \<^verbatim>\<open>window.api.saveLocation\<close> throws at once, or it returns something that
  the \<^verbatim>\<open>await\<close> settles later: the promise rejects, or it is fulfilled with \<^verbatim>\<open>null\<close> or
  \<^verbatim>\<open>undefined\<close>, or with an object with its \<^verbatim>\<open>error\<close> key (\<^term>\<open>None\<close> when missing).
\<close>

datatype response = no_reply | reply "string option"

datatype awaited = rejects | fulfils response

datatype call_outcome = throws | promises awaited

text \<open>
  The browser as the tracker sees it: whether \<^verbatim>\<open>navigator.geolocation\<close> and
  \<^verbatim>\<open>window.showMessage\<close> exist, the names of the properties of \<^verbatim>\<open>window.api\<close>
  (\<^term>\<open>None\<close> when \<^verbatim>\<open>window.api\<close> is undefined), what a call of a
  \<^verbatim>\<open>saveLocation\<close> property yields, the identifiers of the live \<^verbatim>\<open>watchPosition\<close>
  subscriptions and \<^verbatim>\<open>setInterval\<close> timers, and the last identifier handed out for
  each (identifiers are positive and never reused).
\<close>

record browser =
  has_geolocation :: bool
  has_showMessage :: bool
  window_api :: "string list option"
  saveLocation_impl :: "locationData \<Rightarrow> call_outcome"
  watches :: "nat list"
  intervals :: "nat list"
  last_watch :: nat
  last_interval :: nat

text \<open>
  The page: the tracker, the browser, the trace, and the reports that were started
  without being awaited and whose \<^verbatim>\<open>await\<close> has not settled yet, each with what it
  will settle to.
\<close>

record world =
  gps :: tracker
  env :: browser
  trace :: "effect list"
  pending_reports :: "awaited list"

text \<open>A \<^verbatim>\<open>GeolocationPositionError\<close> and its three codes.\<close>

record geo_error =
  code :: nat
  message :: string

definition PERMISSION_DENIED :: nat where
  "PERMISSION_DENIED = 1"

definition POSITION_UNAVAILABLE :: nat where
  "POSITION_UNAVAILABLE = 2"

definition TIMEOUT :: nat where
  "TIMEOUT = 3"

text \<open>What \<^verbatim>\<open>navigator.geolocation.getCurrentPosition\<close> answers a request with.\<close>

datatype geo_outcome = delivers position | fails geo_error

datatype js_error = TypeError

text \<open>The \<^verbatim>\<open>api\<close> object of \<^verbatim>\<open>api.js\<close>, by the names of its properties.\<close>

definition api :: "string list" where
  "api = [''get'', ''post'', ''patch'', ''put'', ''delete'',
          ''setToken'', ''clearToken'', ''getToken'']"

definition emit :: "effect list \<Rightarrow> world \<Rightarrow> world" where
  "emit es w = w\<lparr>trace := trace w @ es\<rparr>"

text \<open>The string of a \<^verbatim>\<open>PermissionStatus.state\<close>.\<close>

fun permission_name :: "permission \<Rightarrow> string" where
  "permission_name granted = ''granted''"
| "permission_name denied = ''denied''"
| "permission_name prompt = ''prompt''"

subsection \<open>Operations of the tracker\<close>

definition showWarning :: "string \<Rightarrow> world \<Rightarrow> world" where
  "showWarning msg w =
     (let w1 = emit [console_warn [''GPS Warning:'', msg]] w
      in if has_showMessage (env w1) then emit [showMessage msg ''warning'' 5000] w1 else w1)"

text \<open>
  \<^verbatim>\<open>initialize\<close>; \<open>perm\<close> is what \<^verbatim>\<open>navigator.permissions.query\<close> resolves to, or
  \<^term>\<open>None\<close> when the query throws or rejects.
\<close>

definition initialize :: "permission option \<Rightarrow> world \<Rightarrow> bool \<times> world" where
  "initialize perm w =
     (if \<not> has_geolocation (env w) then
        (False, showWarning ''GPS is not supported by your device/browser''
                  (emit [console_warn [''Geolocation is not supported by this browser'']] w))
      else
        (case perm of
           Some st \<Rightarrow>
             (True, w\<lparr>gps := (gps w)\<lparr>permissionState := Some st, initialized := True\<rparr>\<rparr>)
         | None \<Rightarrow>
             (let w1 = emit [console_warn [''Could not check geolocation permission:'']] w
              in (True, w1\<lparr>gps := (gps w1)\<lparr>initialized := True\<rparr>\<rparr>))))"

text \<open>The \<^verbatim>\<open>locationData\<close> literal of \<^verbatim>\<open>savePositionToBackend\<close>.\<close>

definition locationData_of :: "position \<Rightarrow> locationData" where
  "locationData_of p =
     \<lparr>latitude = latitude (coords p),
      longitude = longitude (coords p),
      accuracy = accuracy (coords p),
      altitude = altitude (coords p),
      altitudeAccuracy = altitudeAccuracy (coords p),
      heading = heading (coords p),
      speed = speed (coords p),
      sent_timestamp = timestamp p\<rparr>"

text \<open>
  \<^verbatim>\<open>savePositionToBackend\<close> is an \<^verbatim>\<open>async\<close> function whose whole body is guarded, so
  every exception ends in the \<^verbatim>\<open>catch\<close> branch and the promise resolves to \<^verbatim>\<open>false\<close>.
  It runs in two parts. The first part runs at the call, up to the \<^verbatim>\<open>await\<close>: it
  makes the call of \<^verbatim>\<open>window.api.saveLocation\<close>. Reading \<^verbatim>\<open>saveLocation\<close> from an
  undefined \<^verbatim>\<open>window.api\<close> and calling a property that the object does not have are
  TypeErrors; they, and a call that throws, are caught at once, and the report is
  settled. Otherwise the report waits for what the call has returned.
\<close>

datatype report = settled bool | awaiting awaited

definition caught :: "world \<Rightarrow> bool \<times> world" where
  "caught w = (False, emit [console_error [''Error saving location:'']] w)"

definition savePositionToBackend_begin :: "position \<Rightarrow> world \<Rightarrow> report \<times> world" where
  "savePositionToBackend_begin p w =
     (let locationData = locationData_of p
      in case window_api (env w) of
           None \<Rightarrow> (settled False, snd (caught w))
         | Some properties \<Rightarrow>
             if ''saveLocation'' \<notin> set properties then (settled False, snd (caught w))
             else
               (let w1 = emit [saveLocation_call locationData] w
                in (case saveLocation_impl (env w) locationData of
                      throws \<Rightarrow> (settled False, snd (caught w1))
                    | promises a \<Rightarrow> (awaiting a, w1))))"

text \<open>
  The second part runs when the \<^verbatim>\<open>await\<close> settles. A rejection is caught; reading
  \<^verbatim>\<open>error\<close> from \<^verbatim>\<open>null\<close> is a TypeError and is caught; an \<^verbatim>\<open>error\<close> value is
  truthy when it is a non-empty string.
\<close>

definition savePositionToBackend_resume :: "awaited \<Rightarrow> world \<Rightarrow> bool \<times> world" where
  "savePositionToBackend_resume a w =
     (case a of
        rejects \<Rightarrow> caught w
      | fulfils no_reply \<Rightarrow> caught w
      | fulfils (reply err) \<Rightarrow>
          (case err of
             None \<Rightarrow> (True, emit [console_log [''Location saved successfully:'']] w)
           | Some e \<Rightarrow>
               (if e \<noteq> [] then
                  (False, emit [console_warn [''Failed to save location:'', e]] w)
                else (True, emit [console_log [''Location saved successfully:'']] w))))"

text \<open>\<^verbatim>\<open>savePositionToBackend\<close> awaited to its end: what its promise resolves to.\<close>

definition savePositionToBackend :: "position \<Rightarrow> world \<Rightarrow> bool \<times> world" where
  "savePositionToBackend p w =
     (case savePositionToBackend_begin p w of
        (settled b, w1) \<Rightarrow> (b, w1)
      | (awaiting a, w1) \<Rightarrow> savePositionToBackend_resume a w1)"

text \<open>
  The tracker itself never awaits the report: \<^verbatim>\<open>this.savePositionToBackend(position)\<close>
  runs the first part, and a report that waits is left pending while the caller goes
  on. A pending report settles in a later step of its own.
\<close>

definition savePositionToBackend_unawaited :: "position \<Rightarrow> world \<Rightarrow> world" where
  "savePositionToBackend_unawaited p w =
     (case savePositionToBackend_begin p w of
        (settled b, w1) \<Rightarrow> w1
      | (awaiting a, w1) \<Rightarrow> w1\<lparr>pending_reports := pending_reports w1 @ [a]\<rparr>)"

definition report_settles :: "nat \<Rightarrow> world \<Rightarrow> world" where
  "report_settles i w =
     (if i < length (pending_reports w) then
        snd (savePositionToBackend_resume (pending_reports w ! i)
               (w\<lparr>pending_reports :=
                    take i (pending_reports w) @ drop (Suc i) (pending_reports w)\<rparr>))
      else w)"

definition emitPositionUpdate :: "position \<Rightarrow> world \<Rightarrow> world" where
  "emitPositionUpdate p w = emit [dispatchEvent ''gps-position-update'' p] w"

definition handlePosition :: "position \<Rightarrow> world \<Rightarrow> world" where
  "handlePosition p w =
     (if shouldSavePosition (gps w) p then
        (let w1 = w\<lparr>gps := (gps w)\<lparr>lastPosition := Some p\<rparr>\<rparr>;
             w2 = savePositionToBackend_unawaited p w1
         in emitPositionUpdate p w2)
      else w)"

definition handleError :: "geo_error \<Rightarrow> world \<Rightarrow> world" where
  "handleError e w =
     (let w1 = emit [console_warn [''GPS Error:'', message e]] w
      in if code e = PERMISSION_DENIED then
           showWarning ''Location permission denied. Please enable location services.''
             (w1\<lparr>gps := (gps w1)\<lparr>userConsent := False\<rparr>\<rparr>)
         else if code e = POSITION_UNAVAILABLE then
           showWarning ''Location information unavailable.'' w1
         else if code e = TIMEOUT then
           showWarning ''Location request timed out.'' w1
         else showWarning ''Unknown location error.'' w1)"

text \<open>
  \<^verbatim>\<open>stopTracking\<close>. \<^verbatim>\<open>clearWatch\<close> and \<^verbatim>\<open>clearInterval\<close> end the subscription and the
  timer with the given identifier; \<^verbatim>\<open>if (this.intervalId)\<close> is false for \<^verbatim>\<open>0\<close> too.
  A subscription handle comes from \<^verbatim>\<open>watchPosition\<close> only, so \<^verbatim>\<open>navigator.geolocation\<close>
  exists wherever \<^verbatim>\<open>clearWatch\<close> is called.
\<close>

definition stopTracking :: "world \<Rightarrow> world" where
  "stopTracking w =
     (let w1 = (case watchId (gps w) of
                  None \<Rightarrow> w
                | Some i \<Rightarrow>
                    w\<lparr>env := (env w)\<lparr>watches := removeAll i (watches (env w))\<rparr>,
                      gps := (gps w)\<lparr>watchId := None\<rparr>\<rparr>);
          w2 = (case intervalId (gps w1) of
                  None \<Rightarrow> w1
                | Some i \<Rightarrow>
                    (if i \<noteq> 0 then
                       w1\<lparr>env := (env w1)\<lparr>intervals := removeAll i (intervals (env w1))\<rparr>,
                          gps := (gps w1)\<lparr>intervalId := None\<rparr>\<rparr>
                     else w1));
          w3 = w2\<lparr>gps := (gps w2)\<lparr>isTracking := False\<rparr>\<rparr>
      in emit [console_log [''GPS tracking stopped'']] w3)"

text \<open>
  \<^verbatim>\<open>startTracking\<close> runs in two parts as well. The first part runs at the call:
  it initializes a tracker that is not initialized (it awaits \<^verbatim>\<open>initialize\<close>, which
  awaits the permission query; this is taken in one step), returns \<^verbatim>\<open>true\<close> when the
  tracker is tracking, and otherwise asks for one position and waits for the answer. Without
  \<^verbatim>\<open>navigator.geolocation\<close> the call of \<^verbatim>\<open>getCurrentPosition\<close> is a TypeError inside the
  promise's executor, and the promise rejects. \<^verbatim>\<open>this.isTracking\<close> is not written in
  this part.
\<close>

datatype start = resolved "js_error + bool" | requested

definition startTracking_begin :: "permission option \<Rightarrow> world \<Rightarrow> start \<times> world" where
  "startTracking_begin perm w =
     (let w1 = (if \<not> initialized (gps w) then snd (initialize perm w) else w)
      in if isTracking (gps w1) then
           (resolved (Inr True), emit [console_log [''Already tracking GPS'']] w1)
         else if \<not> has_geolocation (env w1) then (resolved (Inl TypeError), w1)
         else (requested, w1))"

text \<open>
  The success callback that \<^verbatim>\<open>startTracking\<close> gives to \<^verbatim>\<open>getCurrentPosition\<close>; it
  does not await the report. \<^verbatim>\<open>watchPosition\<close> and \<^verbatim>\<open>setInterval\<close> return a new
  identifier.
\<close>

definition startTracking_onPosition :: "position \<Rightarrow> world \<Rightarrow> world" where
  "startTracking_onPosition p w =
     (let w1 = w\<lparr>gps := (gps w)\<lparr>userConsent := True, lastPosition := Some p\<rparr>\<rparr>;
          w2 = savePositionToBackend_unawaited p w1;
          wid = Suc (last_watch (env w2));
          w3 = w2\<lparr>env := (env w2)\<lparr>watches := watches (env w2) @ [wid], last_watch := wid\<rparr>,
                  gps := (gps w2)\<lparr>watchId := Some wid\<rparr>\<rparr>;
          w4 = emit [console_log [''GPS tracking started'']]
                 (w3\<lparr>gps := (gps w3)\<lparr>isTracking := True\<rparr>\<rparr>);
          tid = Suc (last_interval (env w4))
      in w4\<lparr>env := (env w4)\<lparr>intervals := intervals (env w4) @ [tid], last_interval := tid\<rparr>,
            gps := (gps w4)\<lparr>intervalId := Some tid\<rparr>\<rparr>)"

text \<open>
  The second part of \<^verbatim>\<open>startTracking\<close> runs when the position request is answered:
  the success callback and \<^verbatim>\<open>resolve(true)\<close>, or \<^verbatim>\<open>handleError\<close> and
  \<^verbatim>\<open>resolve(false)\<close>.
\<close>

definition startTracking_answer :: "geo_outcome \<Rightarrow> world \<Rightarrow> bool \<times> world" where
  "startTracking_answer geo w =
     (case geo of
        delivers p \<Rightarrow> (True, startTracking_onPosition p w)
      | fails e \<Rightarrow> (False, handleError e w))"

text \<open>
  \<^verbatim>\<open>startTracking\<close> awaited to its end, with nothing else running in between;
  \<open>geo\<close> is the answer to its position request.
\<close>

definition startTracking ::
  "permission option \<Rightarrow> geo_outcome \<Rightarrow> world \<Rightarrow> (js_error + bool) \<times> world" where
  "startTracking perm geo w =
     (case startTracking_begin perm w of
        (resolved r, w1) \<Rightarrow> (r, w1)
      | (requested, w1) \<Rightarrow>
          (case startTracking_answer geo w1 of (b, w2) \<Rightarrow> (Inr b, w2)))"

text \<open>
  The function given to \<^verbatim>\<open>setInterval\<close>; \<open>geo\<close> is the answer to the request it makes.
  Without \<^verbatim>\<open>navigator.geolocation\<close> the request is a TypeError of the timer task.
\<close>

definition pollTick :: "geo_outcome \<Rightarrow> world \<Rightarrow> world" where
  "pollTick geo w =
     (case lastPosition (gps w) of
        None \<Rightarrow> w
      | Some _ \<Rightarrow>
          if \<not> has_geolocation (env w) then w
          else (case geo of
                  delivers p \<Rightarrow> handlePosition p w
                | fails e \<Rightarrow> handleError e w))"

text \<open>
  The \<^verbatim>\<open>onchange\<close> handler that \<^verbatim>\<open>initialize\<close> registers; \<open>st\<close> is the new state of
  the permission. The handler does not await \<^verbatim>\<open>startTracking\<close>: the first part of
  it runs in the handler, and the answer to its position request is a later step.
\<close>

definition permission_onchange :: "permission \<Rightarrow> permission option \<Rightarrow> world \<Rightarrow> world" where
  "permission_onchange st perm w =
     (let w1 = emit [console_log [''GPS permission changed to:'', permission_name st]]
                 (w\<lparr>gps := (gps w)\<lparr>permissionState := Some st\<rparr>\<rparr>)
      in if st = granted \<and> autoStart (opts (gps w1)) then snd (startTracking_begin perm w1)
         else if st = denied then
           showWarning
             ''GPS permission denied. Please enable location services in your browser settings.''
             (stopTracking w1)
         else w1)"

text \<open>
  The steps of the page: the operations of the tracker, the two parts of
  \<^verbatim>\<open>startTracking\<close> on their own, and the settling of a pending report.
\<close>

datatype operation =
    Initialize "permission option"
  | StartTracking "permission option" geo_outcome
  | StartTracking_begin "permission option"
  | StartTracking_answer geo_outcome
  | StartTracking_onPosition position
  | StopTracking
  | HandlePosition position
  | HandleError geo_error
  | PollTick geo_outcome
  | Permission_onchange permission "permission option"
  | Report_settles nat

fun run :: "operation \<Rightarrow> world \<Rightarrow> world" where
  "run (Initialize perm) w = snd (initialize perm w)"
| "run (StartTracking perm geo) w = snd (startTracking perm geo w)"
| "run (StartTracking_begin perm) w = snd (startTracking_begin perm w)"
| "run (StartTracking_answer geo) w = snd (startTracking_answer geo w)"
| "run (StartTracking_onPosition p) w = startTracking_onPosition p w"
| "run StopTracking w = stopTracking w"
| "run (HandlePosition p) w = handlePosition p w"
| "run (HandleError e) w = handleError e w"
| "run (PollTick geo) w = pollTick geo w"
| "run (Permission_onchange st perm) w = permission_onchange st perm w"
| "run (Report_settles i) w = report_settles i w"

text \<open>Whether \<^verbatim>\<open>window.api\<close> exists and has a \<^verbatim>\<open>saveLocation\<close>.\<close>

definition has_saveLocation :: "browser \<Rightarrow> bool" where
  "has_saveLocation b =
     (case window_api b of None \<Rightarrow> False | Some properties \<Rightarrow> ''saveLocation'' \<in> set properties)"

text \<open>The subscription handle is set exactly when the tracker is tracking.\<close>

definition handle_iff_tracking :: "tracker \<Rightarrow> bool" where
  "handle_iff_tracking t = ((watchId t \<noteq> None) = isTracking t)"

subsection \<open>The page as it is loaded\<close>

text \<open>
  The global instance \<^verbatim>\<open>window.gpsTracker\<close>, in a browser with geolocation, with
  \<^verbatim>\<open>api.js\<close> loaded and no \<^verbatim>\<open>window.showMessage\<close> (the \<^verbatim>\<open>showMessage\<close> of
  \<^verbatim>\<open>app.js\<close> is local to its load handler).
\<close>

definition gpsTracker :: tracker where
  "gpsTracker =
     constructor
       \<lparr>arg_enableHighAccuracy = Some True,
        arg_timeout = Some 10000,
        arg_maximumAge = Some 0,
        arg_updateInterval = Some 60000,
        arg_minDistance = Some 10,
        arg_autoStart = Some False\<rparr>"

definition loaded_page :: world where
  "loaded_page =
     \<lparr>gps = gpsTracker,
      env = \<lparr>has_geolocation = True,
             has_showMessage = False,
             window_api = Some api,
             saveLocation_impl = (\<lambda>_. throws),
             watches = [],
             intervals = [],
             last_watch = 0,
             last_interval = 0\<rparr>,
      trace = [],
      pending_reports = []\<rparr>"

text \<open>A sample at the given latitude and longitude, and a permission error.\<close>

definition sample :: "real \<Rightarrow> real \<Rightarrow> position" where
  "sample lat lon =
     \<lparr>coords = \<lparr>latitude = lat, longitude = lon, accuracy = 5, altitude = None,
                altitudeAccuracy = None, heading = None, speed = None\<rparr>,
      timestamp = 0\<rparr>"

definition permission_error :: geo_error where
  "permission_error = \<lparr>code = PERMISSION_DENIED, message = ''User denied Geolocation''\<rparr>"

text \<open>The loaded page after a first \<^verbatim>\<open>startTracking\<close> that got a fix at (0, 0).\<close>

definition tracking_page :: world where
  "tracking_page = snd (startTracking (Some granted) (delivers (sample 0 0)) loaded_page)"

text \<open>
  The loaded page after \<^verbatim>\<open>initialize\<close>, as the load handler of the page leaves it, and
  the same page with a backend: a \<^verbatim>\<open>window.api\<close> that has a \<^verbatim>\<open>saveLocation\<close> whose
  promise is fulfilled with an object without \<^verbatim>\<open>error\<close>.
\<close>

definition initialized_page :: world where
  "initialized_page = snd (initialize (Some granted) loaded_page)"

definition backend_page :: world where
  "backend_page =
     tracking_page
       \<lparr>env := (env tracking_page)
          \<lparr>window_api := Some (''saveLocation'' # api),
           saveLocation_impl := (\<lambda>_. promises (fulfils (reply None)))\<rparr>\<rparr>"

text \<open>
  The initialized page after two calls of \<^verbatim>\<open>startTracking\<close> in a row, the second made
  before the position request of the first is answered, and after both requests have
  then been answered with a fix at (0, 0).
\<close>

definition twice_started_page :: world where
  "twice_started_page =
     snd (startTracking_answer (delivers (sample 0 0))
       (snd (startTracking_answer (delivers (sample 0 0))
         (snd (startTracking_begin None
           (snd (startTracking_begin None initialized_page)))))))"

subsection \<open>Facts about the distance\<close>

lemma calculateDistance_a:
  "calculateDistance lat1 lon1 lat2 lon2 =
     6371000 * (2 * atan2 (sqrt (haversine_a lat1 lon1 lat2 lon2))
                          (sqrt (1 - haversine_a lat1 lon1 lat2 lon2)))"
  by (simp add: calculateDistance_def haversine_a_def Let_def)

lemma haversine_a_same: "haversine_a lat lon lat lon = 0"
  by (simp add: haversine_a_def)

lemma calculateDistance_same: "calculateDistance lat lon lat lon = 0"
  by (simp add: calculateDistance_a haversine_a_same atan2_def)

lemma sin_half_sq: "sin (x / 2) * sin (x / 2) = (1 - cos x) / 2" for x :: real
proof -
  have "cos (2 * (x / 2)) = 1 - 2 * (sin (x / 2))\<^sup>2"
    by (rule cos_double_sin)
  moreover have "2 * (x / 2) = x"
    by simp
  ultimately have "cos x = 1 - 2 * (sin (x / 2))\<^sup>2"
    by (simp only:)
  then show ?thesis
    by (simp add: power2_eq_square)
qed

lemma half_range: "- 1 \<le> c \<Longrightarrow> c \<le> 1 \<Longrightarrow> 0 \<le> (1 - c) / 2 \<and> (1 - c) / 2 \<le> 1" for c :: real
  by simp

lemma convex_split: "u + k * s = (1 - s) * u + s * (u + k)" for u k s :: real
  by (simp add: algebra_simps)

text \<open>
  In exact arithmetic the number under the square roots lies between 0 and 1, where the
  real square root and \<^verbatim>\<open>Math.sqrt\<close> agree.
\<close>

lemma haversine_a_range:
  "0 \<le> haversine_a lat1 lon1 lat2 lon2 \<and> haversine_a lat1 lon1 lat2 lon2 \<le> 1"
proof -
  define p1 where "p1 = lat1 * pi / 180"
  define p2 where "p2 = lat2 * pi / 180"
  define s where "s = sin ((lon2 - lon1) * pi / 180 / 2) * sin ((lon2 - lon1) * pi / 180 / 2)"
  have s01: "0 \<le> s" "s \<le> 1"
  proof -
    show "0 \<le> s"
      by (simp add: s_def)
    have "s = (sin ((lon2 - lon1) * pi / 180 / 2))\<^sup>2"
      by (simp add: s_def power2_eq_square)
    then show "s \<le> 1"
      using sin_cos_squared_add [of "(lon2 - lon1) * pi / 180 / 2"]
        zero_le_power2 [of "cos ((lon2 - lon1) * pi / 180 / 2)"]
      by linarith
  qed
  have d: "(lat2 - lat1) * pi / 180 / 2 = (p2 - p1) / 2"
    by (simp add: p1_def p2_def left_diff_distrib diff_divide_distrib)
  have h: "sin ((p2 - p1) / 2) * sin ((p2 - p1) / 2) = (1 - cos (p2 - p1)) / 2"
    by (rule sin_half_sq)
  have a: "haversine_a lat1 lon1 lat2 lon2 = (1 - cos (p2 - p1)) / 2 + cos p1 * cos p2 * s"
    unfolding haversine_a_def Let_def d h [symmetric] p1_def [symmetric] p2_def [symmetric] s_def
    by (simp add: mult.assoc)
  have lo: "0 \<le> (1 - cos (p2 - p1)) / 2" and hi: "(1 - cos (p2 - p1)) / 2 \<le> 1"
    using half_range [of "cos (p2 - p1)"] by simp_all
  have e1: "(1 - cos (p2 - p1)) / 2 + cos p1 * cos p2 = (1 + cos (p1 + p2)) / 2"
    by (simp add: cos_diff cos_add field_simps)
  have lo1: "0 \<le> (1 + cos (p1 + p2)) / 2" and hi1: "(1 + cos (p1 + p2)) / 2 \<le> 1"
    using half_range [of "- cos (p1 + p2)"] by simp_all
  have c: "(1 - cos (p2 - p1)) / 2 + cos p1 * cos p2 * s =
           (1 - s) * ((1 - cos (p2 - p1)) / 2) + s * ((1 + cos (p1 + p2)) / 2)"
    using convex_split [of "(1 - cos (p2 - p1)) / 2" "cos p1 * cos p2" s] by (simp only: e1)
  have "0 \<le> (1 - s) * ((1 - cos (p2 - p1)) / 2) + s * ((1 + cos (p1 + p2)) / 2)"
    using s01 lo lo1 by (intro add_nonneg_nonneg mult_nonneg_nonneg) simp_all
  moreover have "(1 - s) * ((1 - cos (p2 - p1)) / 2) + s * ((1 + cos (p1 + p2)) / 2) \<le> 1"
  proof -
    have "(1 - s) * ((1 - cos (p2 - p1)) / 2) \<le> (1 - s) * 1"
      using s01 hi by (intro mult_left_mono) simp_all
    moreover have "s * ((1 + cos (p1 + p2)) / 2) \<le> s * 1"
      using s01 hi1 by (intro mult_left_mono) simp_all
    ultimately show ?thesis by simp
  qed
  ultimately show ?thesis
    unfolding a c by simp
qed


subsection \<open>Bounds on \<open>\<pi>\<close> and the fixture distance\<close>

lemma sin_poly8:
  "(\<Sum>m<8. sin_coeff m * x ^ m) = x - x ^ 3 / 6 + x ^ 5 / 120 - x ^ 7 / 5040" for x :: real
proof -
  have c: "sin_coeff (Suc 0) = 1" "sin_coeff 2 = 0" "sin_coeff 3 = - 1 / 6" "sin_coeff 4 = 0"
    "sin_coeff 5 = 1 / 120" "sin_coeff 6 = 0" "sin_coeff 7 = - 1 / 5040"
    by (simp_all add: sin_coeff_def fact_numeral)
  have "{..<8::nat} = {0, 1, 2, 3, 4, 5, 6, 7}"
    by auto
  then show ?thesis
    by (simp add: c)
qed

lemma sin_below_half: "sin (67 / 128 :: real) < 1 / 2"
proof -
  have "\<bar>sin (67 / 128 :: real) - (\<Sum>m<8. sin_coeff m * (67 / 128) ^ m)\<bar>
        \<le> inverse (fact 8) * \<bar>67 / 128\<bar> ^ 8"
    by (rule Maclaurin_sin_bound)
  moreover have "(67 / 128 :: real) - (67 / 128) ^ 3 / 6 + (67 / 128) ^ 5 / 120
                 - (67 / 128) ^ 7 / 5040 + inverse (fact 8) * \<bar>67 / 128\<bar> ^ 8 < 1 / 2"
    by (simp add: fact_numeral power_divide)
  ultimately show ?thesis
    unfolding sin_poly8 by linarith
qed

lemma sin_above_half: "1 / 2 < sin (11 / 21 :: real)"
proof -
  have "\<bar>sin (11 / 21 :: real) - (\<Sum>m<8. sin_coeff m * (11 / 21) ^ m)\<bar>
        \<le> inverse (fact 8) * \<bar>11 / 21\<bar> ^ 8"
    by (rule Maclaurin_sin_bound)
  moreover have "1 / 2 < (11 / 21 :: real) - (11 / 21) ^ 3 / 6 + (11 / 21) ^ 5 / 120
                 - (11 / 21) ^ 7 / 5040 - inverse (fact 8) * \<bar>11 / 21\<bar> ^ 8"
    by (simp add: fact_numeral power_divide)
  ultimately show ?thesis
    unfolding sin_poly8 by linarith
qed

lemma pi_lower: "201 / 64 < pi"
proof (rule ccontr)
  assume "\<not> 201 / 64 < pi"
  then have "pi / 6 \<le> 67 / 128"
    by simp
  moreover have "(67 / 128 :: real) \<le> pi / 2"
    using pi_ge_two by simp
  moreover have "- (pi / 2) \<le> pi / 6"
    using pi_ge_two by simp
  ultimately have "sin (pi / 6) \<le> sin (67 / 128)"
    by (intro sin_monotone_2pi_le)
  then show False
    using sin_below_half by (simp add: sin_30)
qed

lemma pi_upper: "pi < 22 / 7"
proof (rule ccontr)
  assume "\<not> pi < 22 / 7"
  then have "11 / 21 \<le> pi / 6"
    by simp
  moreover have "pi / 6 \<le> pi / 2"
    using pi_ge_two by simp
  moreover have "- (pi / 2) \<le> 11 / 21"
    using pi_ge_two by simp
  ultimately have "sin (11 / 21) \<le> sin (pi / 6)"
    by (intro sin_monotone_2pi_le)
  then show False
    using sin_above_half by (simp add: sin_30)
qed

lemma atan2_sin_cos:
  assumes "0 \<le> h" "h < pi / 2"
  shows "atan2 (sqrt (sin h * sin h)) (sqrt (1 - sin h * sin h)) = h"
proof -
  have c: "0 < cos h"
    using assms by (intro cos_gt_zero_pi) simp_all
  have s: "0 \<le> sin h"
    using assms pi_ge_two by (intro sin_ge_zero) simp_all
  have "1 - sin h * sin h = cos h * cos h"
    using sin_cos_squared_add [of h] by (simp add: power2_eq_square)
  then have "sqrt (1 - sin h * sin h) = cos h"
    using c by simp
  moreover have "sqrt (sin h * sin h) = sin h"
    using s by simp
  moreover have "arctan (sin h / cos h) = h"
    using arctan_tan [of h] assms by (simp add: tan_def)
  ultimately show ?thesis
    using c by (simp add: atan2_def)
qed

lemma fixture_distance: "calculateDistance 0 0 0 1 = 6371000 * pi / 180"
proof -
  have a: "haversine_a 0 0 0 1 = sin (pi / 360) * sin (pi / 360)"
    by (simp add: haversine_a_def)
  have "atan2 (sqrt (sin (pi / 360) * sin (pi / 360)))
          (sqrt (1 - sin (pi / 360) * sin (pi / 360))) = pi / 360"
    by (rule atan2_sin_cos) simp_all
  then show ?thesis
    by (simp add: calculateDistance_a a)
qed

lemma fixture_bounds: "111145 \<le> calculateDistance 0 0 0 1 \<and> calculateDistance 0 0 0 1 \<le> 111245"
  using pi_lower pi_upper by (simp add: fixture_distance)

lemma shouldSavePosition_Some:
  "lastPosition t = Some lastp \<Longrightarrow>
   shouldSavePosition t candidate =
     (minDistance (opts t) \<le> calculateDistance (fst (latlon lastp)) (snd (latlon lastp))
        (fst (latlon candidate)) (snd (latlon candidate)))"
  by (simp add: shouldSavePosition_def latlon_def Let_def)

subsection \<open>The position filter\<close>

text \<open>
  C2. When there is no last accepted sample, the filter accepts every candidate,
  whatever the threshold.
\<close>

theorem shouldSavePosition_first_fix:
  "lastPosition t = None \<Longrightarrow> shouldSavePosition t candidate"
  by (simp add: shouldSavePosition_def)

theorem shouldSavePosition_first_fix_witness:
  "lastPosition gpsTracker = None \<and> shouldSavePosition gpsTracker (sample 48 2)"
proof -
  have h: "lastPosition gpsTracker = None"
    by (simp add: gpsTracker_def constructor_def)
  show ?thesis
    using h shouldSavePosition_first_fix [OF h, of "sample 48 2"] by simp
qed

text \<open>
  C4. The distance between (0, 0) and (0, 1) is within 50 metres of 111,195 metres,
  and with these as last sample and candidate and a threshold of 10 metres the filter
  accepts.
\<close>

theorem fixture_one_degree_of_longitude:
  "\<bar>calculateDistance 0 0 0 1 - 111195\<bar> \<le> 50 \<and>
   (lastPosition t = Some lastp \<and> latlon lastp = (0, 0) \<and> latlon candidate = (0, 1) \<and>
    minDistance (opts t) = 10 \<longrightarrow> shouldSavePosition t candidate)"
proof (intro conjI impI)
  show "\<bar>calculateDistance 0 0 0 1 - 111195\<bar> \<le> 50"
    using fixture_bounds by linarith
  show "shouldSavePosition t candidate"
    if "lastPosition t = Some lastp \<and> latlon lastp = (0, 0) \<and> latlon candidate = (0, 1) \<and>
        minDistance (opts t) = 10"
    using that fixture_bounds by (simp add: shouldSavePosition_Some)
qed

theorem fixture_one_degree_of_longitude_witness:
  "lastPosition (gpsTracker\<lparr>lastPosition := Some (sample 0 0)\<rparr>) = Some (sample 0 0) \<and>
   latlon (sample 0 0) = (0, 0) \<and> latlon (sample 0 1) = (0, 1) \<and>
   minDistance (opts (gpsTracker\<lparr>lastPosition := Some (sample 0 0)\<rparr>)) = 10 \<and>
   shouldSavePosition (gpsTracker\<lparr>lastPosition := Some (sample 0 0)\<rparr>) (sample 0 1)"
proof -
  have h: "lastPosition (gpsTracker\<lparr>lastPosition := Some (sample 0 0)\<rparr>) = Some (sample 0 0)"
    by simp
  have a: "latlon (sample 0 0) = (0, 0)" and b: "latlon (sample 0 1) = (0, 1)"
    by (simp_all add: latlon_def sample_def)
  have m: "minDistance (opts (gpsTracker\<lparr>lastPosition := Some (sample 0 0)\<rparr>)) = 10"
    by (simp add: gpsTracker_def constructor_def merge_options_def)
  show ?thesis
    using h a b m
      fixture_one_degree_of_longitude
        [of "gpsTracker\<lparr>lastPosition := Some (sample 0 0)\<rparr>" "sample 0 0" "sample 0 1"]
    by simp
qed

subsection \<open>What each operation leaves alone\<close>

lemma emit_frame [simp]:
  "gps (emit es w) = gps w" "env (emit es w) = env w" "trace (emit es w) = trace w @ es"
  "pending_reports (emit es w) = pending_reports w"
  by (simp_all add: emit_def)

lemma showWarning_frame [simp]:
  "gps (showWarning msg w) = gps w" "env (showWarning msg w) = env w"
  "pending_reports (showWarning msg w) = pending_reports w"
  by (simp_all add: showWarning_def Let_def)

lemma showWarning_trace:
  "trace (showWarning msg w) =
     trace w @ [console_warn [''GPS Warning:'', msg]] @
     (if has_showMessage (env w) then [showMessage msg ''warning'' 5000] else [])"
  by (simp add: showWarning_def Let_def)

lemma api_has_no_saveLocation: "''saveLocation'' \<notin> set api"
  by (simp add: api_def)

lemma caught_frame [simp]:
  "fst (caught w) = False" "gps (snd (caught w)) = gps w" "env (snd (caught w)) = env w"
  "pending_reports (snd (caught w)) = pending_reports w"
  "trace (snd (caught w)) = trace w @ [console_error [''Error saving location:'']]"
  by (simp_all add: caught_def)

lemma savePositionToBackend_begin_frame [simp]:
  "gps (snd (savePositionToBackend_begin p w)) = gps w"
  "env (snd (savePositionToBackend_begin p w)) = env w"
  "pending_reports (snd (savePositionToBackend_begin p w)) = pending_reports w"
  by (simp_all add: savePositionToBackend_begin_def Let_def
      split: option.split call_outcome.split)

lemma savePositionToBackend_resume_frame [simp]:
  "gps (snd (savePositionToBackend_resume a w)) = gps w"
  "env (snd (savePositionToBackend_resume a w)) = env w"
  "pending_reports (snd (savePositionToBackend_resume a w)) = pending_reports w"
  by (simp_all add: savePositionToBackend_resume_def
      split: awaited.split response.split option.split)

lemma savePositionToBackend_unawaited_frame [simp]:
  "gps (savePositionToBackend_unawaited p w) = gps w"
  "env (savePositionToBackend_unawaited p w) = env w"
proof -
  obtain r w1 where b: "savePositionToBackend_begin p w = (r, w1)"
    by (cases "savePositionToBackend_begin p w")
  then have "gps w1 = gps w" "env w1 = env w"
    using savePositionToBackend_begin_frame(1, 2) [of p w] by simp_all
  then show "gps (savePositionToBackend_unawaited p w) = gps w"
    "env (savePositionToBackend_unawaited p w) = env w"
    by (simp_all add: savePositionToBackend_unawaited_def b split: report.split)
qed

lemma report_settles_frame [simp]:
  "gps (report_settles i w) = gps w" "env (report_settles i w) = env w"
  by (simp_all add: report_settles_def)

lemma initialize_frame [simp]:
  "env (snd (initialize perm w)) = env w"
  "watchId (gps (snd (initialize perm w))) = watchId (gps w)"
  "isTracking (gps (snd (initialize perm w))) = isTracking (gps w)"
  by (simp_all add: initialize_def Let_def split: option.split)

lemma initialize_initialized:
  "has_geolocation (env w) \<Longrightarrow> initialized (gps (snd (initialize perm w)))"
  by (simp add: initialize_def Let_def split: option.split)

lemma handleError_frame [simp]:
  "env (handleError e w) = env w"
  "watchId (gps (handleError e w)) = watchId (gps w)"
  "intervalId (gps (handleError e w)) = intervalId (gps w)"
  "isTracking (gps (handleError e w)) = isTracking (gps w)"
  "initialized (gps (handleError e w)) = initialized (gps w)"
  "pending_reports (handleError e w) = pending_reports w"
  by (simp_all add: handleError_def Let_def)

lemma handlePosition_frame [simp]:
  "env (handlePosition p w) = env w"
  "watchId (gps (handlePosition p w)) = watchId (gps w)"
  "intervalId (gps (handlePosition p w)) = intervalId (gps w)"
  "isTracking (gps (handlePosition p w)) = isTracking (gps w)"
  by (simp_all add: handlePosition_def emitPositionUpdate_def Let_def)

lemma stopTracking_idle [simp]:
  "watchId (gps (stopTracking w)) = None" "\<not> isTracking (gps (stopTracking w))"
  by (simp_all add: stopTracking_def Let_def split: option.split)

lemma stopTracking_keeps [simp]:
  "lastPosition (gps (stopTracking w)) = lastPosition (gps w)"
  "opts (gps (stopTracking w)) = opts (gps w)"
  "userConsent (gps (stopTracking w)) = userConsent (gps w)"
  "pending_reports (stopTracking w) = pending_reports w"
  "trace (stopTracking w) = trace w @ [console_log [''GPS tracking stopped'']]"
  "has_showMessage (env (stopTracking w)) = has_showMessage (env w)"
  "window_api (env (stopTracking w)) = window_api (env w)"
  "saveLocation_impl (env (stopTracking w)) = saveLocation_impl (env w)"
  by (simp_all add: stopTracking_def Let_def split: option.split)

lemma startTracking_onPosition_tracking [simp]:
  "watchId (gps (startTracking_onPosition p w)) = Some (Suc (last_watch (env w)))"
  "isTracking (gps (startTracking_onPosition p w))"
  "watches (env (startTracking_onPosition p w)) = watches (env w) @ [Suc (last_watch (env w))]"
  "initialized (gps (startTracking_onPosition p w)) = initialized (gps w)"
  "has_geolocation (env (startTracking_onPosition p w)) = has_geolocation (env w)"
  by (simp_all add: startTracking_onPosition_def Let_def)

lemma startTracking_already:
  "isTracking (gps w) \<Longrightarrow> initialized (gps w) \<Longrightarrow>
   startTracking perm geo w = (Inr True, emit [console_log [''Already tracking GPS'']] w)"
  by (simp add: startTracking_def startTracking_begin_def)

lemma shouldSavePosition_cong:
  "lastPosition t' = lastPosition t \<Longrightarrow> opts t' = opts t \<Longrightarrow>
   shouldSavePosition t' p = shouldSavePosition t p"
  by (simp add: shouldSavePosition_def Let_def split: option.split)

subsection \<open>The invariant, operation by operation\<close>

lemma inv_initialize:
  "handle_iff_tracking (gps w) \<Longrightarrow> handle_iff_tracking (gps (snd (initialize perm w)))"
  by (simp add: handle_iff_tracking_def)

lemma inv_handleError:
  "handle_iff_tracking (gps w) \<Longrightarrow> handle_iff_tracking (gps (handleError e w))"
  by (simp add: handle_iff_tracking_def)

lemma inv_handlePosition:
  "handle_iff_tracking (gps w) \<Longrightarrow> handle_iff_tracking (gps (handlePosition p w))"
  by (simp add: handle_iff_tracking_def)

lemma inv_stopTracking: "handle_iff_tracking (gps (stopTracking w))"
  by (simp add: handle_iff_tracking_def)

lemma inv_report_settles:
  "handle_iff_tracking (gps w) \<Longrightarrow> handle_iff_tracking (gps (report_settles i w))"
  by simp

lemma inv_startTracking_onPosition: "handle_iff_tracking (gps (startTracking_onPosition p w))"
  by (simp add: handle_iff_tracking_def)

lemma inv_startTracking_begin:
  "handle_iff_tracking (gps w) \<Longrightarrow> handle_iff_tracking (gps (snd (startTracking_begin perm w)))"
  by (cases "initialized (gps w)")
    (auto simp: startTracking_begin_def Let_def handle_iff_tracking_def)

lemma inv_startTracking_answer:
  "handle_iff_tracking (gps w) \<Longrightarrow> handle_iff_tracking (gps (snd (startTracking_answer geo w)))"
  by (cases geo)
    (simp_all add: startTracking_answer_def inv_startTracking_onPosition inv_handleError)

lemma inv_startTracking:
  assumes "handle_iff_tracking (gps w)"
  shows "handle_iff_tracking (gps (snd (startTracking perm geo w)))"
proof -
  obtain s w1 where b: "startTracking_begin perm w = (s, w1)"
    by (cases "startTracking_begin perm w")
  then have i: "handle_iff_tracking (gps w1)"
    using inv_startTracking_begin [OF assms, of perm] by simp
  show ?thesis
  proof (cases s)
    case (resolved r)
    with b i show ?thesis
      by (simp add: startTracking_def)
  next
    case requested
    obtain c w2 where a: "startTracking_answer geo w1 = (c, w2)"
      by (cases "startTracking_answer geo w1")
    then have "handle_iff_tracking (gps w2)"
      using inv_startTracking_answer [OF i, of geo] by simp
    with b requested a show ?thesis
      by (simp add: startTracking_def)
  qed
qed

lemma inv_pollTick:
  "handle_iff_tracking (gps w) \<Longrightarrow> handle_iff_tracking (gps (pollTick geo w))"
  by (simp add: pollTick_def inv_handlePosition inv_handleError
      split: option.split geo_outcome.split)

lemma inv_permission_onchange:
  assumes "handle_iff_tracking (gps w)"
  shows "handle_iff_tracking (gps (permission_onchange st perm w))"
proof -
  define w1 where "w1 = emit [console_log [''GPS permission changed to:'', permission_name st]]
                     (w\<lparr>gps := (gps w)\<lparr>permissionState := Some st\<rparr>\<rparr>)"
  have i: "handle_iff_tracking (gps w1)"
    using assms by (simp add: w1_def handle_iff_tracking_def)
  have p: "permission_onchange st perm w =
           (if st = granted \<and> autoStart (opts (gps w1)) then snd (startTracking_begin perm w1)
            else if st = denied then
              showWarning
                ''GPS permission denied. Please enable location services in your browser settings.''
                (stopTracking w1)
            else w1)"
    unfolding permission_onchange_def w1_def Let_def ..
  show ?thesis
    unfolding p using i by (simp add: inv_startTracking_begin inv_stopTracking)
qed

subsection \<open>The pages, evaluated\<close>

lemmas page_defs =
  tracking_page_def loaded_page_def gpsTracker_def constructor_def merge_options_def
  startTracking_def startTracking_begin_def startTracking_answer_def
  startTracking_onPosition_def initialize_def savePositionToBackend_unawaited_def
  savePositionToBackend_begin_def caught_def emit_def api_def Let_def

lemma tracking_page_value:
  "tracking_page =
     \<lparr>gps =
        \<lparr>opts =
           \<lparr>enableHighAccuracy = True, timeout = 10000, maximumAge = 0,
            updateInterval = 60000, minDistance = 10, autoStart = False\<rparr>,
         watchId = Some 1,
         lastPosition = Some (sample 0 0),
         isTracking = True, userConsent = True, initialized = True,
         permissionState = Some granted, intervalId = Some 1\<rparr>,
      env =
        \<lparr>has_geolocation = True, has_showMessage = False,
         window_api = Some api,
         saveLocation_impl = (\<lambda>_. throws), watches = [1],
         intervals = [1], last_watch = 1, last_interval = 1\<rparr>,
      trace =
        [console_error [''Error saving location:''],
         console_log [''GPS tracking started'']],
      pending_reports = []\<rparr>"
  by (simp add: page_defs)

lemma stopped_page_value:
  "stopTracking tracking_page =
     \<lparr>gps =
        \<lparr>opts =
           \<lparr>enableHighAccuracy = True, timeout = 10000, maximumAge = 0,
            updateInterval = 60000, minDistance = 10, autoStart = False\<rparr>,
         watchId = None,
         lastPosition = Some (sample 0 0),
         isTracking = False, userConsent = True, initialized = True,
         permissionState = Some granted, intervalId = None\<rparr>,
      env =
        \<lparr>has_geolocation = True, has_showMessage = False,
         window_api = Some api,
         saveLocation_impl = (\<lambda>_. throws), watches = [],
         intervals = [], last_watch = 1, last_interval = 1\<rparr>,
      trace =
        [console_error [''Error saving location:''],
         console_log [''GPS tracking started''],
         console_log [''GPS tracking stopped'']],
      pending_reports = []\<rparr>"
  by (simp add: tracking_page_value stopTracking_def emit_def Let_def)

lemma stopped_page_accepts: "shouldSavePosition (gps (stopTracking tracking_page)) (sample 0 1)"
proof -
  have "lastPosition (gps (stopTracking tracking_page)) = Some (sample 0 0)"
    by (simp add: stopped_page_value)
  moreover have "minDistance (opts (gps (stopTracking tracking_page))) = 10"
    by (simp add: stopped_page_value)
  moreover have "latlon (sample 0 0) = (0, 0)" "latlon (sample 0 1) = (0, 1)"
    by (simp_all add: latlon_def sample_def)
  ultimately show ?thesis
    using fixture_bounds by (simp add: shouldSavePosition_Some)
qed

lemma initialized_page_value:
  "initialized_page =
     \<lparr>gps =
        \<lparr>opts =
           \<lparr>enableHighAccuracy = True, timeout = 10000, maximumAge = 0,
            updateInterval = 60000, minDistance = 10, autoStart = False\<rparr>,
         watchId = None,
         lastPosition = None,
         isTracking = False, userConsent = False, initialized = True,
         permissionState = Some granted, intervalId = None\<rparr>,
      env =
        \<lparr>has_geolocation = True, has_showMessage = False,
         window_api = Some api,
         saveLocation_impl = (\<lambda>_. throws), watches = [],
         intervals = [], last_watch = 0, last_interval = 0\<rparr>,
      trace = [],
      pending_reports = []\<rparr>"
  by (simp add: initialized_page_def page_defs)

lemma initialized_page_begin:
  "startTracking_begin None initialized_page = (requested, initialized_page)"
  by (simp add: startTracking_begin_def initialized_page_value)

lemma once_started_page_value:
  "snd (startTracking_answer (delivers (sample 0 0)) initialized_page) = tracking_page"
  by (simp add: tracking_page_value initialized_page_value startTracking_answer_def
      startTracking_onPosition_def savePositionToBackend_unawaited_def
      savePositionToBackend_begin_def caught_def emit_def api_def Let_def)

lemma twice_started_page_value:
  "twice_started_page =
     \<lparr>gps =
        \<lparr>opts =
           \<lparr>enableHighAccuracy = True, timeout = 10000, maximumAge = 0,
            updateInterval = 60000, minDistance = 10, autoStart = False\<rparr>,
         watchId = Some 2,
         lastPosition = Some (sample 0 0),
         isTracking = True, userConsent = True, initialized = True,
         permissionState = Some granted, intervalId = Some 2\<rparr>,
      env =
        \<lparr>has_geolocation = True, has_showMessage = False,
         window_api = Some api,
         saveLocation_impl = (\<lambda>_. throws), watches = [1, 2],
         intervals = [1, 2], last_watch = 2, last_interval = 2\<rparr>,
      trace =
        [console_error [''Error saving location:''],
         console_log [''GPS tracking started''],
         console_error [''Error saving location:''],
         console_log [''GPS tracking started'']],
      pending_reports = []\<rparr>"
  by (simp add: twice_started_page_def initialized_page_begin once_started_page_value)
    (simp add: tracking_page_value startTracking_answer_def
      startTracking_onPosition_def savePositionToBackend_unawaited_def
      savePositionToBackend_begin_def caught_def emit_def api_def Let_def)

subsection \<open>Starting and stopping\<close>

text \<open>
  C5. The test of \<^verbatim>\<open>isTracking\<close> at the head of \<^verbatim>\<open>startTracking\<close> makes a start on a
  tracker that is tracking return \<^verbatim>\<open>true\<close> and do nothing more (lemma
  \<open>startTracking_already\<close>). But the flag is written by the success callback only.
  On the initialized page, a second \<^verbatim>\<open>startTracking\<close> made in a row, before the
  position request of the first is answered, passes the test as the first did: neither
  call changes the page, and both ask for a position. When the two requests are
  answered with a fix, both calls return \<^verbatim>\<open>true\<close>, and two subscriptions and two timers
  are live. The tracker holds the handles of the second pair only, so a
  \<^verbatim>\<open>stopTracking\<close> after that leaves the first subscription and the first timer live.
\<close>

theorem startTracking_twice_in_a_row_two_subscriptions:
  "startTracking_begin None initialized_page = (requested, initialized_page) \<and>
   fst (startTracking_answer (delivers (sample 0 0)) initialized_page) = True \<and>
   fst (startTracking_answer (delivers (sample 0 0))
          (snd (startTracking_answer (delivers (sample 0 0)) initialized_page))) = True \<and>
   watches (env twice_started_page) = [1, 2] \<and>
   intervals (env twice_started_page) = [1, 2] \<and>
   watchId (gps twice_started_page) = Some 2 \<and>
   intervalId (gps twice_started_page) = Some 2 \<and>
   watches (env (stopTracking twice_started_page)) = [1] \<and>
   intervals (env (stopTracking twice_started_page)) = [1]"
proof -
  have "watches (env (stopTracking twice_started_page)) = [1]"
    "intervals (env (stopTracking twice_started_page)) = [1]"
    by (simp_all add: twice_started_page_value stopTracking_def Let_def)
  moreover have "fst (startTracking_answer (delivers (sample 0 0)) w) = True" for w
    by (simp add: startTracking_answer_def)
  ultimately show ?thesis
    by (simp add: initialized_page_begin twice_started_page_value)
qed

text \<open>
  C6. \<^verbatim>\<open>stopTracking\<close> on an idle tracker (not tracking, no subscription handle, no
  timer handle) changes neither the tracker nor the browser; it only writes its line
  to the console. A second \<^verbatim>\<open>stopTracking\<close> changes nothing that the first has left.
\<close>

theorem stopTracking_idle_noop:
  "(\<not> isTracking (gps w) \<and> watchId (gps w) = None \<and> intervalId (gps w) = None \<longrightarrow>
      gps (stopTracking w) = gps w \<and> env (stopTracking w) = env w \<and>
      trace (stopTracking w) = trace w @ [console_log [''GPS tracking stopped'']]) \<and>
   gps (stopTracking (stopTracking w)) = gps (stopTracking w) \<and>
   env (stopTracking (stopTracking w)) = env (stopTracking w)"
proof (intro conjI impI)
  assume "\<not> isTracking (gps w) \<and> watchId (gps w) = None \<and> intervalId (gps w) = None"
  then show "gps (stopTracking w) = gps w" "env (stopTracking w) = env w"
    "trace (stopTracking w) = trace w @ [console_log [''GPS tracking stopped'']]"
    by (simp_all add: stopTracking_def Let_def)
next
  show "gps (stopTracking (stopTracking w)) = gps (stopTracking w)"
    by (cases "watchId (gps w)"; cases "intervalId (gps w)")
      (simp_all add: stopTracking_def Let_def)
  show "env (stopTracking (stopTracking w)) = env (stopTracking w)"
    by (cases "watchId (gps w)"; cases "intervalId (gps w)")
      (simp_all add: stopTracking_def Let_def)
qed

theorem stopTracking_idle_noop_witness:
  "\<not> isTracking (gps loaded_page) \<and> watchId (gps loaded_page) = None \<and>
   intervalId (gps loaded_page) = None \<and>
   gps (stopTracking loaded_page) = gps loaded_page \<and>
   env (stopTracking loaded_page) = env loaded_page \<and>
   trace (stopTracking loaded_page) = [console_log [''GPS tracking stopped'']]"
proof -
  have a: "\<not> isTracking (gps loaded_page) \<and> watchId (gps loaded_page) = None \<and>
           intervalId (gps loaded_page) = None"
    by (simp add: loaded_page_def gpsTracker_def constructor_def)
  have "trace loaded_page = []"
    by (simp add: loaded_page_def)
  then show ?thesis
    using a stopTracking_idle_noop [of loaded_page, THEN conjunct1] by simp
qed

subsection \<open>Callbacks after a stop\<close>

lemma has_saveLocation_stopTracking [simp]:
  "has_saveLocation (env (stopTracking w)) = has_saveLocation (env w)"
  by (simp add: has_saveLocation_def)

lemma handlePosition_accepted:
  "shouldSavePosition (gps w) p \<Longrightarrow> lastPosition (gps (handlePosition p w)) = Some p"
  by (simp add: handlePosition_def emitPositionUpdate_def Let_def)

lemma handlePosition_accepted_no_saveLocation:
  "shouldSavePosition (gps w) p \<Longrightarrow> \<not> has_saveLocation (env w) \<Longrightarrow>
   trace (handlePosition p w) =
     trace w @ [console_error [''Error saving location:''],
                dispatchEvent ''gps-position-update'' p] \<and>
   pending_reports (handlePosition p w) = pending_reports w"
  by (auto simp: handlePosition_def emitPositionUpdate_def savePositionToBackend_unawaited_def
      savePositionToBackend_begin_def has_saveLocation_def Let_def split: option.splits)

lemma handlePosition_accepted_saveLocation:
  "shouldSavePosition (gps w) p \<Longrightarrow> has_saveLocation (env w) \<Longrightarrow>
   trace (handlePosition p w) =
     trace w @
     saveLocation_call (locationData_of p) #
     (case saveLocation_impl (env w) (locationData_of p) of
        throws \<Rightarrow> [console_error [''Error saving location:'']]
      | promises a \<Rightarrow> []) @
     [dispatchEvent ''gps-position-update'' p] \<and>
   pending_reports (handlePosition p w) =
     pending_reports w @
     (case saveLocation_impl (env w) (locationData_of p) of
        throws \<Rightarrow> []
      | promises a \<Rightarrow> [a])"
  by (auto simp: handlePosition_def emitPositionUpdate_def savePositionToBackend_unawaited_def
      savePositionToBackend_begin_def has_saveLocation_def Let_def
      split: option.splits call_outcome.splits)

lemma stopped_page_no_saveLocation: "\<not> has_saveLocation (env (stopTracking tracking_page))"
  by (simp add: has_saveLocation_def tracking_page_value api_has_no_saveLocation)

text \<open>
  C7, as stated, fails: nothing in \<^verbatim>\<open>handlePosition\<close> or \<^verbatim>\<open>handleError\<close> looks at
  \<^verbatim>\<open>isTracking\<close> or at the handles. On the page that tracked from (0, 0) and was then
  stopped, a late sample at (0, 1) is dispatched as a position update, and a late
  permission error writes its warning.
\<close>

theorem late_callbacks_not_ignored:
  "dispatchEvent ''gps-position-update'' (sample 0 1)
     \<in> set (trace (handlePosition (sample 0 1) (stopTracking tracking_page))) \<and>
   dispatchEvent ''gps-position-update'' (sample 0 1) \<notin> set (trace (stopTracking tracking_page)) \<and>
   lastPosition (gps (handlePosition (sample 0 1) (stopTracking tracking_page))) = Some (sample 0 1) \<and>
   console_warn [''GPS Warning:'', ''Location permission denied. Please enable location services.'']
     \<in> set (trace (handleError permission_error (stopTracking tracking_page))) \<and>
   console_warn [''GPS Warning:'', ''Location permission denied. Please enable location services.'']
     \<notin> set (trace (stopTracking tracking_page))"
proof -
  have "trace (handlePosition (sample 0 1) (stopTracking tracking_page)) =
          trace (stopTracking tracking_page) @
          [console_error [''Error saving location:''],
           dispatchEvent ''gps-position-update'' (sample 0 1)]"
    using handlePosition_accepted_no_saveLocation
      [OF stopped_page_accepts stopped_page_no_saveLocation]
    by simp
  moreover have "lastPosition (gps (handlePosition (sample 0 1) (stopTracking tracking_page))) =
                 Some (sample 0 1)"
    using stopped_page_accepts by (simp add: handlePosition_def emitPositionUpdate_def Let_def)
  moreover have "trace (handleError permission_error (stopTracking tracking_page)) =
          trace (stopTracking tracking_page) @
          [console_warn [''GPS Error:'', ''User denied Geolocation''],
           console_warn [''GPS Warning:'',
             ''Location permission denied. Please enable location services.'']]"
    by (simp add: handleError_def permission_error_def showWarning_trace Let_def)
      (simp add: tracking_page_value)
  moreover have "trace (stopTracking tracking_page) =
        [console_error [''Error saving location:''],
         console_log [''GPS tracking started''],
         console_log [''GPS tracking stopped'']]"
    by (simp add: stopped_page_value)
  ultimately show ?thesis
    by simp
qed

text \<open>
  C7, amended. After \<^verbatim>\<open>stopTracking\<close> the tracker is idle, it holds no subscription
  handle, and the subscription and the timer it held are no longer live in the
  browser, so that no new callback is scheduled for them. A callback that fires all the
  same is not ignored. The sample callback applies the position filter, with the last
  accepted sample and the threshold that the stop has left as they were. When the
  filter accepts, the callback records the sample, starts the report and then
  dispatches the position update: without a \<^verbatim>\<open>saveLocation\<close> in \<^verbatim>\<open>window.api\<close> the
  report fails and is logged at once; with one, the call is made with the data of the
  sample, a call that throws is logged at once, and otherwise the report is left
  pending. When the filter rejects, the callback does nothing. The error callback writes
  one warning.
\<close>

theorem stopTracking_cancels_but_late_callbacks_run:
  "\<not> isTracking (gps (stopTracking w)) \<and> watchId (gps (stopTracking w)) = None \<and>
   (\<forall>h. watchId (gps w) = Some h \<longrightarrow> h \<notin> set (watches (env (stopTracking w)))) \<and>
   (\<forall>h. intervalId (gps w) = Some h \<and> h \<noteq> 0 \<longrightarrow>
        intervalId (gps (stopTracking w)) = None \<and>
        h \<notin> set (intervals (env (stopTracking w)))) \<and>
   shouldSavePosition (gps (stopTracking w)) p = shouldSavePosition (gps w) p \<and>
   (shouldSavePosition (gps w) p \<longrightarrow>
      lastPosition (gps (handlePosition p (stopTracking w))) = Some p) \<and>
   (shouldSavePosition (gps w) p \<and> \<not> has_saveLocation (env w) \<longrightarrow>
      trace (handlePosition p (stopTracking w)) =
        trace (stopTracking w) @
        [console_error [''Error saving location:''], dispatchEvent ''gps-position-update'' p] \<and>
      pending_reports (handlePosition p (stopTracking w)) = pending_reports w) \<and>
   (shouldSavePosition (gps w) p \<and> has_saveLocation (env w) \<longrightarrow>
      trace (handlePosition p (stopTracking w)) =
        trace (stopTracking w) @
        saveLocation_call (locationData_of p) #
        (case saveLocation_impl (env w) (locationData_of p) of
           throws \<Rightarrow> [console_error [''Error saving location:'']]
         | promises a \<Rightarrow> []) @
        [dispatchEvent ''gps-position-update'' p] \<and>
      pending_reports (handlePosition p (stopTracking w)) =
        pending_reports w @
        (case saveLocation_impl (env w) (locationData_of p) of
           throws \<Rightarrow> []
         | promises a \<Rightarrow> [a])) \<and>
   (\<not> shouldSavePosition (gps w) p \<longrightarrow> handlePosition p (stopTracking w) = stopTracking w) \<and>
   (\<exists>msg. trace (handleError e (stopTracking w)) =
      trace (stopTracking w) @
      [console_warn [''GPS Error:'', message e], console_warn [''GPS Warning:'', msg]] @
      (if has_showMessage (env w) then [showMessage msg ''warning'' 5000] else []))"
proof -
  have n: "\<not> isTracking (gps (stopTracking w))" "watchId (gps (stopTracking w)) = None"
    by simp_all
  have s: "shouldSavePosition (gps (stopTracking w)) p = shouldSavePosition (gps w) p"
    by (rule shouldSavePosition_cong) simp_all
  have w: "\<forall>h. watchId (gps w) = Some h \<longrightarrow> h \<notin> set (watches (env (stopTracking w)))"
    by (simp add: stopTracking_def Let_def split: option.split)
  have i: "\<forall>h. intervalId (gps w) = Some h \<and> h \<noteq> 0 \<longrightarrow>
             intervalId (gps (stopTracking w)) = None \<and>
             h \<notin> set (intervals (env (stopTracking w)))"
    by (simp add: stopTracking_def Let_def split: option.split)
  have a: "shouldSavePosition (gps w) p \<longrightarrow>
      lastPosition (gps (handlePosition p (stopTracking w))) = Some p"
    using s handlePosition_accepted [of "stopTracking w" p] by simp
  have b: "shouldSavePosition (gps w) p \<and> \<not> has_saveLocation (env w) \<longrightarrow>
      trace (handlePosition p (stopTracking w)) =
        trace (stopTracking w) @
        [console_error [''Error saving location:''], dispatchEvent ''gps-position-update'' p] \<and>
      pending_reports (handlePosition p (stopTracking w)) = pending_reports w"
    using s handlePosition_accepted_no_saveLocation [of "stopTracking w" p] by simp
  have c: "shouldSavePosition (gps w) p \<and> has_saveLocation (env w) \<longrightarrow>
      trace (handlePosition p (stopTracking w)) =
        trace (stopTracking w) @
        saveLocation_call (locationData_of p) #
        (case saveLocation_impl (env w) (locationData_of p) of
           throws \<Rightarrow> [console_error [''Error saving location:'']]
         | promises a \<Rightarrow> []) @
        [dispatchEvent ''gps-position-update'' p] \<and>
      pending_reports (handlePosition p (stopTracking w)) =
        pending_reports w @
        (case saveLocation_impl (env w) (locationData_of p) of
           throws \<Rightarrow> []
         | promises a \<Rightarrow> [a])"
    using s handlePosition_accepted_saveLocation [of "stopTracking w" p] by simp
  have r: "\<not> shouldSavePosition (gps w) p \<longrightarrow> handlePosition p (stopTracking w) = stopTracking w"
    using s by (simp add: handlePosition_def)
  have m: "\<exists>msg. trace (handleError e (stopTracking w)) =
      trace (stopTracking w) @
      [console_warn [''GPS Error:'', message e], console_warn [''GPS Warning:'', msg]] @
      (if has_showMessage (env w) then [showMessage msg ''warning'' 5000] else [])"
    by (simp add: handleError_def showWarning_trace Let_def)
  show ?thesis
    by (intro conjI) (fact n s w i a b c r m)+
qed

theorem stopTracking_cancels_but_late_callbacks_run_witness:
  "watchId (gps tracking_page) = Some 1 \<and> 1 \<notin> set (watches (env (stopTracking tracking_page))) \<and>
   intervalId (gps tracking_page) = Some 1 \<and> (1::nat) \<noteq> 0 \<and>
   intervalId (gps (stopTracking tracking_page)) = None \<and>
   1 \<notin> set (intervals (env (stopTracking tracking_page))) \<and>
   shouldSavePosition (gps tracking_page) (sample 0 1) \<and> \<not> has_saveLocation (env tracking_page) \<and>
   lastPosition (gps (handlePosition (sample 0 1) (stopTracking tracking_page))) = Some (sample 0 1) \<and>
   trace (handlePosition (sample 0 1) (stopTracking tracking_page)) =
     trace (stopTracking tracking_page) @
     [console_error [''Error saving location:''],
      dispatchEvent ''gps-position-update'' (sample 0 1)] \<and>
   shouldSavePosition (gps backend_page) (sample 0 1) \<and> has_saveLocation (env backend_page) \<and>
   trace (handlePosition (sample 0 1) (stopTracking backend_page)) =
     trace (stopTracking backend_page) @
     [saveLocation_call (locationData_of (sample 0 1)),
      dispatchEvent ''gps-position-update'' (sample 0 1)] \<and>
   pending_reports (handlePosition (sample 0 1) (stopTracking backend_page)) =
     [fulfils (reply None)] \<and>
   \<not> shouldSavePosition (gps tracking_page) (sample 0 0) \<and>
   handlePosition (sample 0 0) (stopTracking tracking_page) = stopTracking tracking_page"
proof -
  have h: "watchId (gps tracking_page) = Some 1" "intervalId (gps tracking_page) = Some 1"
    by (simp_all add: tracking_page_value)
  have l: "lastPosition (gps tracking_page) = Some (sample 0 0)"
    "minDistance (opts (gps tracking_page)) = 10"
    by (simp_all add: tracking_page_value)
  have far: "shouldSavePosition (gps tracking_page) (sample 0 1)"
    using fixture_bounds l by (simp add: shouldSavePosition_Some latlon_def sample_def)
  have near: "\<not> shouldSavePosition (gps tracking_page) (sample 0 0)"
    using l by (simp add: shouldSavePosition_Some calculateDistance_same)
  have none: "\<not> has_saveLocation (env tracking_page)"
    by (simp add: has_saveLocation_def tracking_page_value api_has_no_saveLocation)
  have g: "gps backend_page = gps tracking_page"
    by (simp add: backend_page_def)
  have some: "has_saveLocation (env backend_page)"
    "saveLocation_impl (env backend_page) (locationData_of (sample 0 1)) =
       promises (fulfils (reply None))"
    "pending_reports backend_page = []"
    by (simp_all add: has_saveLocation_def backend_page_def tracking_page_value)
  show ?thesis
    using h far near none some
      stopTracking_cancels_but_late_callbacks_run [of tracking_page "sample 0 1"]
      stopTracking_cancels_but_late_callbacks_run [of tracking_page "sample 0 0"]
      stopTracking_cancels_but_late_callbacks_run [of backend_page "sample 0 1"]
    by (simp add: g)
qed

subsection \<open>A permission error while tracking\<close>

text \<open>
  C8. When a permission error arrives while the tracker is tracking, \<^verbatim>\<open>handleError\<close>
  clears the consent flag and changes nothing else of the tracker: it is still tracking
  and still holds its subscription and timer handles, and the browser's live
  subscriptions and timers are as before. It writes the error line and one warning to
  the console, and gives that one warning to \<^verbatim>\<open>window.showMessage\<close> when there is one.
  The handler has no path that throws: it returns the page in every case.
\<close>

theorem handleError_permission_denied:
  "isTracking (gps w) \<and> code e = PERMISSION_DENIED \<longrightarrow>
     gps (handleError e w) = (gps w)\<lparr>userConsent := False\<rparr> \<and>
     \<not> userConsent (gps (handleError e w)) \<and>
     isTracking (gps (handleError e w)) \<and>
     watchId (gps (handleError e w)) = watchId (gps w) \<and>
     intervalId (gps (handleError e w)) = intervalId (gps w) \<and>
     env (handleError e w) = env w \<and>
     trace (handleError e w) =
       trace w @
       [console_warn [''GPS Error:'', message e],
        console_warn [''GPS Warning:'',
          ''Location permission denied. Please enable location services.'']] @
       (if has_showMessage (env w) then
          [showMessage ''Location permission denied. Please enable location services.''
             ''warning'' 5000]
        else [])"
  by (simp add: handleError_def showWarning_trace Let_def)

theorem handleError_permission_denied_witness:
  "isTracking (gps tracking_page) \<and> code permission_error = PERMISSION_DENIED \<and>
   userConsent (gps tracking_page) \<and>
   \<not> userConsent (gps (handleError permission_error tracking_page)) \<and>
   isTracking (gps (handleError permission_error tracking_page)) \<and>
   watchId (gps (handleError permission_error tracking_page)) = Some 1 \<and>
   intervalId (gps (handleError permission_error tracking_page)) = Some 1 \<and>
   watches (env (handleError permission_error tracking_page)) = [1] \<and>
   intervals (env (handleError permission_error tracking_page)) = [1]"
proof -
  have a: "isTracking (gps tracking_page) \<and> code permission_error = PERMISSION_DENIED"
    by (simp add: tracking_page_value permission_error_def)
  have b: "userConsent (gps tracking_page)" "watchId (gps tracking_page) = Some 1"
    "intervalId (gps tracking_page) = Some 1" "watches (env tracking_page) = [1]"
    "intervals (env tracking_page) = [1]"
    by (simp_all add: tracking_page_value)
  show ?thesis
    using a b handleError_permission_denied [of tracking_page permission_error] by simp
qed

subsection \<open>The invariant\<close>

text \<open>
  C9. A new tracker has no subscription handle and is not tracking, and every
  operation keeps the handle set exactly when the tracker is tracking:
  \<^verbatim>\<open>initialize\<close>, \<^verbatim>\<open>startTracking\<close> on each of its paths, its two parts and its success
  callback on their own, \<^verbatim>\<open>stopTracking\<close>, \<^verbatim>\<open>handlePosition\<close>, \<^verbatim>\<open>handleError\<close>, the
  timer's function, the permission handler and the settling of a pending report.
\<close>

theorem handle_iff_tracking_invariant:
  "handle_iff_tracking (constructor a) \<and>
   (handle_iff_tracking (gps w) \<longrightarrow> handle_iff_tracking (gps (run op w)))"
proof (intro conjI impI)
  show "handle_iff_tracking (constructor a)"
    by (simp add: handle_iff_tracking_def constructor_def)
  assume "handle_iff_tracking (gps w)"
  then show "handle_iff_tracking (gps (run op w))"
    by (cases op)
      (simp_all add: inv_initialize inv_startTracking inv_startTracking_begin
        inv_startTracking_answer inv_startTracking_onPosition inv_stopTracking
        inv_handlePosition inv_handleError inv_pollTick inv_permission_onchange)
qed

theorem handle_iff_tracking_invariant_witness:
  "handle_iff_tracking gpsTracker \<and> handle_iff_tracking (gps loaded_page) \<and>
   handle_iff_tracking (gps (run (StartTracking (Some granted) (delivers (sample 0 0))) loaded_page)) \<and>
   isTracking (gps (run (StartTracking (Some granted) (delivers (sample 0 0))) loaded_page))"
proof -
  have a: "handle_iff_tracking (gps loaded_page)"
    by (simp add: handle_iff_tracking_def loaded_page_def gpsTracker_def constructor_def)
  have c: "isTracking (gps tracking_page)"
    by (simp add: tracking_page_value)
  show ?thesis
    using a c
      handle_iff_tracking_invariant
        [of "\<lparr>arg_enableHighAccuracy = Some True, arg_timeout = Some 10000,
              arg_maximumAge = Some 0, arg_updateInterval = Some 60000,
              arg_minDistance = Some 10, arg_autoStart = Some False\<rparr>"
            loaded_page "StartTracking (Some granted) (delivers (sample 0 0))"]
    by (simp add: tracking_page_def [symmetric] gpsTracker_def [symmetric])
qed

subsection \<open>Reporting with the client of \<^verbatim>\<open>api.js\<close>\<close>

text \<open>
  C10. When \<^verbatim>\<open>window.api\<close> is the object of \<^verbatim>\<open>api.js\<close>, which has no \<^verbatim>\<open>saveLocation\<close>,
  \<^verbatim>\<open>savePositionToBackend\<close> resolves to \<^verbatim>\<open>false\<close> for every sample: no call reaches a
  \<^verbatim>\<open>saveLocation\<close>, the error is caught and written to the console, and nothing else
  changes.
\<close>

theorem savePositionToBackend_fails_with_api_js:
  "''saveLocation'' \<notin> set api \<and>
   (window_api (env w) = Some api \<longrightarrow>
      savePositionToBackend p w = (False, emit [console_error [''Error saving location:'']] w))"
  by (simp add: savePositionToBackend_def savePositionToBackend_begin_def caught_def Let_def
      api_has_no_saveLocation)

theorem savePositionToBackend_fails_with_api_js_witness:
  "window_api (env loaded_page) = Some api \<and>
   fst (savePositionToBackend (sample 48 2) loaded_page) = False \<and>
   trace (snd (savePositionToBackend (sample 48 2) loaded_page)) =
     [console_error [''Error saving location:'']]"
proof -
  have a: "window_api (env loaded_page) = Some api"
    by (simp add: loaded_page_def)
  have "trace loaded_page = []"
    by (simp add: loaded_page_def)
  then show ?thesis
    using a savePositionToBackend_fails_with_api_js [of loaded_page "sample 48 2"] by simp
qed

end
